theory Spec2Isabelle
  imports Main "HOL-Library.Char_ord" "HOL-Library.List_Lexorder" "HOL-Library.Multiset"
begin

section \<open>Strings\<close>

text \<open>
  Python text is modelled as \<^typ>\<open>string\<close>, compared character by character
  (\<open>sorted\<close> on strings is the lexicographic order of the character codes).
\<close>

definition startswith :: "string \<Rightarrow> string \<Rightarrow> bool" where
  "startswith s p = (take (length p) s = p)"

section \<open>The static test discoverer\<close>

text \<open>
  \<open>pyclbr.readmodule\<close> returns a dictionary from class names to class descriptors, and
  each descriptor holds a dictionary \<open>methods\<close> from method names to line numbers.
  Both dictionaries are read through \<open>.items()\<close> only, so they are association lists
  here, in the order \<open>.items()\<close> yields them.
\<close>

datatype exc =
    SystemExit int
  | DocoptExit
  | ImportError
  | IOError
  | OSError
  | AssertionError
  | OtherError string

record pyclass =
  methods :: "(string \<times> nat) list"

type_synonym clsmembers = "(string \<times> pyclass) list"

text \<open>\<open>'%s.%s.%s' % (application, clsname, method)\<close>\<close>

definition test_label :: "string \<Rightarrow> string \<Rightarrow> string \<Rightarrow> string" where
  "test_label application clsname method_name =
     application @ ''.'' @ clsname @ ''.'' @ method_name"

text \<open>The innermost loop, \<open>for method, _ in cls.methods.items()\<close>.\<close>

fun methods_loop :: "string \<Rightarrow> string \<Rightarrow> (string \<times> nat) list \<Rightarrow> string list \<Rightarrow> string list" where
  "methods_loop application clsname [] test_labels = test_labels"
| "methods_loop application clsname ((method_name, _) # ms) test_labels =
     (if startswith method_name ''test_''
      then methods_loop application clsname ms
             (test_labels @ [test_label application clsname method_name])
      else methods_loop application clsname ms test_labels)"

text \<open>The middle loop, \<open>for clsname, cls in clsmembers.items()\<close>.\<close>

fun classes_loop :: "string \<Rightarrow> clsmembers \<Rightarrow> string list \<Rightarrow> string list" where
  "classes_loop application [] test_labels = test_labels"
| "classes_loop application ((clsname, cls) # cs) test_labels =
     classes_loop application cs (methods_loop application clsname (methods cls) test_labels)"

text \<open>
  The outer loop over the modules that \<open>pkgutil.iter_modules\<close> lists under
  \<open>application/tests\<close>. \<open>readmodule\<close> is the class browser, given the dotted name
  \<open>application.tests.module\<close>; it may raise, and then discovery raises.
\<close>

fun modules_loop ::
  "(string \<Rightarrow> exc + clsmembers) \<Rightarrow> string \<Rightarrow> string list \<Rightarrow> string list \<Rightarrow> exc + string list" where
  "modules_loop readmodule application [] test_labels = Inr test_labels"
| "modules_loop readmodule application (module # mods) test_labels =
     (case readmodule (application @ ''.tests.'' @ module) of
        Inl e \<Rightarrow> Inl e
      | Inr members \<Rightarrow>
          modules_loop readmodule application mods
            (classes_loop application members test_labels))"

text \<open>
  \<open>_get_test_labels\<close>: \<open>iter_modules\<close> gives the module names found in a directory,
  here \<open>os.path.join(application, "tests")\<close>.
\<close>

definition get_test_labels ::
  "(string \<Rightarrow> string list) \<Rightarrow> (string \<Rightarrow> exc + clsmembers) \<Rightarrow> string \<Rightarrow> exc + string list" where
  "get_test_labels iter_modules readmodule application =
     (case modules_loop readmodule application
             (iter_modules (application @ ''/tests'')) [] of
        Inl e \<Rightarrow> Inl e
      | Inr test_labels \<Rightarrow> Inr (sort test_labels))"

text \<open>
  What discovery is measured against: the class members of every module that was read,
  and the pairs of class name and method name whose method bears the prefix.
\<close>

fun read_members :: "(string \<Rightarrow> exc + clsmembers) \<Rightarrow> string \<Rightarrow> string list \<Rightarrow> clsmembers" where
  "read_members readmodule application [] = []"
| "read_members readmodule application (module # mods) =
     (case readmodule (application @ ''.tests.'' @ module) of
        Inl e \<Rightarrow> []
      | Inr members \<Rightarrow> members @ read_members readmodule application mods)"

definition test_methods :: "clsmembers \<Rightarrow> (string \<times> string) list" where
  "test_methods members =
     concat (map (\<lambda>(clsname, cls).
       map (Pair clsname) (filter (\<lambda>m. startswith m ''test_'') (map fst (methods cls)))) members)"

section \<open>The world the commands act on\<close>

type_synonym path = string

text \<open>A call of Django's \<open>call_command(name, *args, **kwargs)\<close>.\<close>

datatype kwarg = KBool string bool | KStr string string | KTuple string "string list"

datatype call = Call string "string list" "kwarg list"

datatype pymodule = Module string "string option"

fun module_version :: "pymodule \<Rightarrow> string option" where
  "module_version (Module name version) = version"

datatype event =
    Mkdtemp path
  | Rmtree path
  | MakeSettings path path
  | Discover string
  | RunTests "string list" bool "string option" "exc + int"
  | CallCommand call
  | Print string
  | XvfbStart
  | XvfbStop

text \<open>
  The state a command reads and changes: the paths that exist on disk, the working
  directory, the process environment, and the trace of what the command did to the
  outside (in order).
\<close>

record world =
  dirs :: "path list"
  cwd :: path
  environ :: "(string \<times> string) list"
  trace :: "event list"

text \<open>The parsed command line, the dictionary \<open>docopt\<close> returns.\<close>

record args =
  arg_application :: string
  arg_test :: bool
  arg_shell :: bool
  arg_compilemessages :: bool
  arg_makemessages :: bool
  arg_makemigrations :: bool
  arg_pyflakes :: bool
  arg_authors :: bool
  arg_test_label :: "string list"
  arg_failfast :: bool
  arg_migrate :: bool
  arg_xvfb :: bool
  arg_runner :: "string option"
  arg_extra_settings :: "string option"
  arg_cms :: bool

text \<open>
  Everything outside \<open>main.py\<close> that the commands call: Django, the class browser,
  git, the file system, and the names imported from \<open>utils\<close> (\<open>DJANGO_1_5\<close>,
  \<open>DJANGO_1_6\<close>, \<open>load_from_file\<close>, \<open>_make_settings\<close>). Operations that run
  foreign code may change the disk, so they transform the list of existing paths.
\<close>

record env =
  DJANGO_1_5 :: bool
  DJANGO_1_6 :: bool
  mkdtemp :: "path list \<Rightarrow> exc + path"
  make_settings :: "args \<Rightarrow> string \<Rightarrow> path \<Rightarrow> path \<Rightarrow> path list \<Rightarrow> exc option \<times> path list"
  iter_modules :: "path \<Rightarrow> string list"
  readmodule :: "string \<Rightarrow> exc + clsmembers"
  run_tests :: "string list \<Rightarrow> bool \<Rightarrow> string option \<Rightarrow> path list \<Rightarrow> (exc + int) \<times> path list"
  call_command :: "call \<Rightarrow> path list \<Rightarrow> exc option \<times> path list"
  load_from_file :: "path \<Rightarrow> exc + pymodule option"
  import_module :: "string \<Rightarrow> exc + pymodule"
  cms_static_analysis :: bool
  pyflakes :: "string \<Rightarrow> exc + int"
  xvfbwrapper :: bool
  git_log :: "exc + string"
  open_read :: "path \<Rightarrow> exc + string"

definition emit :: "event \<Rightarrow> world \<Rightarrow> world" where
  "emit ev w = w\<lparr>trace := trace w @ [ev]\<rparr>"

section \<open>Scoped resources\<close>

text \<open>\<open>shutil.rmtree\<close>: the directory and everything below it leave the disk.\<close>

definition rmtree :: "path \<Rightarrow> path list \<Rightarrow> path list" where
  "rmtree name ds = filter (\<lambda>p. \<not> (p = name \<or> startswith p (name @ ''/''))) ds"

text \<open>
  Modelled from the spec: \<open>temp_dir\<close> of \<open>utils\<close>, which is not among the sources.
  The spec: it creates a fresh temporary directory, passes its path to the body, and
  guarantees that the directory is recursively removed when the body returns, returns an
  error, or is interrupted. The body's outcome is passed on unchanged.
\<close>

definition temp_dir ::
  "env \<Rightarrow> (path \<Rightarrow> world \<Rightarrow> (exc + 'a) \<times> world) \<Rightarrow> world \<Rightarrow> (exc + 'a) \<times> world" where
  "temp_dir e body w =
     (case mkdtemp e (dirs w) of
        Inl err \<Rightarrow> (Inl err, w)
      | Inr name \<Rightarrow>
          (case body name (emit (Mkdtemp name) (w\<lparr>dirs := name # dirs w\<rparr>)) of
             (r, w') \<Rightarrow> (r, emit (Rmtree name) (w'\<lparr>dirs := rmtree name (dirs w')\<rparr>))))"

text \<open>
  Modelled from the spec: \<open>work_in\<close> of \<open>utils\<close>, which is not among the sources.
  The spec: the working context is changed to the directory for the duration of the
  body and restored afterward regardless of the outcome.
\<close>

definition work_in ::
  "path \<Rightarrow> (world \<Rightarrow> (exc + 'a) \<times> world) \<Rightarrow> world \<Rightarrow> (exc + 'a) \<times> world" where
  "work_in dirname body w =
     (case body (w\<lparr>cwd := dirname\<rparr>) of (r, w') \<Rightarrow> (r, w'\<lparr>cwd := cwd w\<rparr>))"

section \<open>Operation handlers\<close>

text \<open>\<open>call_command\<close> as the handlers use it: the call is traced, the disk may change.\<close>

definition do_call :: "env \<Rightarrow> call \<Rightarrow> world \<Rightarrow> (exc + unit) \<times> world" where
  "do_call e c w =
     (case call_command e c (dirs w) of
        (r, ds) \<Rightarrow>
          ((case r of None \<Rightarrow> Inr () | Some err \<Rightarrow> Inl err),
           emit (CallCommand c) (w\<lparr>dirs := ds\<rparr>)))"

text \<open>
  \<open>_test_run_worker\<close>: hands the labels to the runner and returns its failure count.
  The trace keeps the labels, the options and what the runner answered.
\<close>

definition test_run_worker ::
  "env \<Rightarrow> string list \<Rightarrow> bool \<Rightarrow> string option \<Rightarrow> world \<Rightarrow> (exc + int) \<times> world" where
  "test_run_worker e test_labels failfast test_runner w =
     (case run_tests e test_labels failfast test_runner (dirs w) of
        (failures, ds) \<Rightarrow>
          (failures,
           emit (RunTests test_labels failfast test_runner failures) (w\<lparr>dirs := ds\<rparr>)))"

text \<open>
  \<open>test\<close>: \<open>test_labels = test_labels or _get_test_labels(application)\<close>. An empty list
  is false, and \<open>or\<close> evaluates its right operand only then. The trace records each
  call of the discoverer.
\<close>

definition test ::
  "env \<Rightarrow> string list \<Rightarrow> string \<Rightarrow> bool \<Rightarrow> string option \<Rightarrow> world \<Rightarrow> (exc + int) \<times> world" where
  "test e test_labels application failfast test_runner w =
     (if test_labels \<noteq> [] then test_run_worker e test_labels failfast test_runner w
      else
        (case get_test_labels (iter_modules e) (readmodule e) application of
           Inl err \<Rightarrow> (Inl err, emit (Discover application) w)
         | Inr found \<Rightarrow>
             test_run_worker e found failfast test_runner (emit (Discover application) w)))"

definition compilemessages :: "env \<Rightarrow> string \<Rightarrow> world \<Rightarrow> (exc + unit) \<times> world" where
  "compilemessages e application w =
     work_in application (do_call e (Call ''compilemessages'' [] [KBool ''all'' True])) w"

definition makemessages :: "env \<Rightarrow> string \<Rightarrow> world \<Rightarrow> (exc + unit) \<times> world" where
  "makemessages e application w =
     work_in application
       (if DJANGO_1_5 e
        then do_call e (Call ''makemessages'' [] [KStr ''locale'' ''en''])
        else do_call e (Call ''makemessages'' [] [KTuple ''locale'' [''en'']])) w"

definition shell :: "env \<Rightarrow> world \<Rightarrow> (exc + unit) \<times> world" where
  "shell e w = do_call e (Call ''shell'' [] []) w"

text \<open>
  \<open>makemigrations\<close>: under \<open>DJANGO_1_6\<close> the file \<open>migrations/0001_initial.py\<close> is
  loaded; only \<open>IOError\<close> is caught. Otherwise the command \<open>makemigrations\<close> is called
  with the application alone.
\<close>

definition makemigrations :: "env \<Rightarrow> string \<Rightarrow> world \<Rightarrow> (exc + unit) \<times> world" where
  "makemigrations e application w =
     (if DJANGO_1_6 e then
        (case (case load_from_file e (application @ ''/migrations/0001_initial.py'') of
                 Inl IOError \<Rightarrow> Inr None
               | Inl err \<Rightarrow> Inl err
               | Inr loaded \<Rightarrow> Inr loaded) of
           Inl err \<Rightarrow> (Inl err, w)
         | Inr loaded \<Rightarrow>
             (let initial = (loaded = None)
              in do_call e (Call ''schemamigration'' [application]
                              [KBool ''initial'' initial, KBool ''auto'' (\<not> initial)]) w))
      else do_call e (Call ''makemigrations'' [application] []) w)"

section \<open>The author list\<close>

text \<open>
  Text is modelled over single-byte characters: \<open>lower\<close> maps the letters A to Z, and
  \<open>strip()\<close> removes the ASCII white space.
\<close>

definition nl :: char where
  "nl = CHR 0x0A"

definition lower_char :: "char \<Rightarrow> char" where
  "lower_char c =
     (case map_of (zip ''ABCDEFGHIJKLMNOPQRSTUVWXYZ'' ''abcdefghijklmnopqrstuvwxyz'') c of
        None \<Rightarrow> c
      | Some d \<Rightarrow> d)"

definition lower :: "string \<Rightarrow> string" where
  "lower s = map lower_char s"

definition whitespace :: "char list" where
  "whitespace = [CHR 0x20, CHR 0x09, CHR 0x0A, CHR 0x0B, CHR 0x0C, CHR 0x0D,
                 CHR 0x1C, CHR 0x1D, CHR 0x1E, CHR 0x1F]"

text \<open>\<open>s.strip(chars)\<close>: leading and trailing characters of the set are removed.\<close>

definition strip_chars :: "char list \<Rightarrow> string \<Rightarrow> string" where
  "strip_chars chars s =
     rev (dropWhile (\<lambda>c. c \<in> set chars) (rev (dropWhile (\<lambda>c. c \<in> set chars) s)))"

definition strip :: "string \<Rightarrow> string" where
  "strip s = strip_chars whitespace s"

text \<open>\<open>readlines()\<close>: the lines of a text, each with its newline when it has one.\<close>

fun lines_from :: "string \<Rightarrow> string \<Rightarrow> string list" where
  "lines_from cur [] = (if cur = [] then [] else [cur])"
| "lines_from cur (c # cs) =
     (if c = nl then (cur @ [c]) # lines_from [] cs else lines_from (cur @ [c]) cs)"

definition readlines :: "string \<Rightarrow> string list" where
  "readlines s = lines_from [] s"

text \<open>
  The block both loops of \<open>generate_authors\<close> share: an author whose lowered name has
  not been seen is appended, and the lowered name is remembered.
\<close>

definition add_author :: "string \<Rightarrow> string list \<times> string list \<Rightarrow> string list \<times> string list" where
  "add_author author st =
     (case st of (seen_authors, authors) \<Rightarrow>
        if lower author \<notin> set seen_authors
        then (seen_authors @ [lower author], authors @ [author])
        else (seen_authors, authors))"

text \<open>\<open>for line in f.readlines()\<close>, over the lines of the file AUTHORS.\<close>

fun file_loop :: "string list \<Rightarrow> string list \<times> string list \<Rightarrow> string list \<times> string list" where
  "file_loop [] st = st"
| "file_loop (line # ls) st =
     (if startswith line ''*''
      then file_loop ls (add_author (strip_chars [CHR ''*'', CHR '' '', nl] line) st)
      else file_loop ls st)"

text \<open>\<open>for author in r.stdout.readlines()\<close>, over the output of git log.\<close>

fun log_loop :: "string list \<Rightarrow> string list \<times> string list \<Rightarrow> string list \<times> string list" where
  "log_loop [] st = st"
| "log_loop (author # ls) st = log_loop ls (add_author (strip author) st)"

text \<open>
  The list \<open>authors\<close> that \<open>generate_authors\<close> prints: both loops, then
  \<open>sorted(authors, key=lambda x: x.lower())\<close>.
\<close>

definition merged_authors :: "string \<Rightarrow> string \<Rightarrow> string list" where
  "merged_authors authors_file log_output =
     sort_key lower
       (snd (log_loop (readlines log_output) (file_loop (readlines authors_file) ([], []))))"

definition digit_char :: "nat \<Rightarrow> char" where
  "digit_char d = ''0123456789'' ! d"

function str_nat :: "nat \<Rightarrow> string" where
  "str_nat n = (if n < 10 then [digit_char n] else str_nat (n div 10) @ [digit_char (n mod 10)])"
  by pat_completeness auto
termination
  by (relation "measure id") auto

fun join :: "string \<Rightarrow> string list \<Rightarrow> string" where
  "join sep [] = []"
| "join sep [x] = x"
| "join sep (x # y # ys) = x @ sep @ join sep (y # ys)"

text \<open>
  \<open>generate_authors\<close>: the git log process is started, the file AUTHORS is read, and
  the merged list is printed as
  \<open>"Authors (%s):\n\n\n* %s" % (len(authors), "\n* ".join(authors))\<close>; the file is not
  written.
\<close>

definition authors_text :: "string list \<Rightarrow> string" where
  "authors_text authors =
     ''Authors ('' @ str_nat (length authors) @ ''):'' @ [nl, nl, nl] @ ''* ''
       @ join (nl # ''* '') authors"

definition generate_authors :: "env \<Rightarrow> world \<Rightarrow> (exc + unit) \<times> world" where
  "generate_authors e w =
     (let w1 = emit (Print ''Collecting author names'') (emit (Print ''Generating AUTHORS'') w)
      in case git_log e of
           Inl err \<Rightarrow> (Inl err, w1)
         | Inr log_output \<Rightarrow>
             (case open_read e ''AUTHORS'' of
                Inl err \<Rightarrow> (Inl err, w1)
              | Inr authors_file \<Rightarrow>
                  (let authors = merged_authors authors_file log_output
                   in (Inr (), emit (Print (authors_text authors)) w1))))"

text \<open>
  The author list as the spec words it: file authors first, then log authors,
  duplicates dropped without regard to case with the first occurrence kept, and the
  result sorted without regard to case.
\<close>

fun dedup_ci :: "string list \<Rightarrow> string list" where
  "dedup_ci [] = []"
| "dedup_ci (x # xs) = x # dedup_ci (filter (\<lambda>y. lower y \<noteq> lower x) xs)"

definition file_authors :: "string \<Rightarrow> string list" where
  "file_authors authors_file =
     map (strip_chars [CHR ''*'', CHR '' '', nl])
         (filter (\<lambda>line. startswith line ''*'') (readlines authors_file))"

definition log_authors :: "string \<Rightarrow> string list" where
  "log_authors log_output = map strip (readlines log_output)"

definition authors_spec :: "string \<Rightarrow> string \<Rightarrow> string list" where
  "authors_spec authors_file log_output =
     sort_key lower (dedup_ci (file_authors authors_file @ log_authors log_output))"

section \<open>Static analysis\<close>

text \<open>
  \<open>static_analisys\<close>: the import of the pyflakes helper from the CMS, the import of the
  application and the analysis itself run inside one \<open>try\<close>; \<open>ImportError\<close> from any of
  them is caught and answered by a message. The \<open>assert\<close> raises when the analysis
  counts an issue.
\<close>

definition static_analisys :: "env \<Rightarrow> string \<Rightarrow> world \<Rightarrow> (exc + unit) \<times> world" where
  "static_analisys e application w =
     (case (if \<not> cms_static_analysis e then Inl ImportError
            else case import_module e application of
                   Inl err \<Rightarrow> Inl err
                 | Inr application_module \<Rightarrow>
                     (case pyflakes e application of
                        Inl err \<Rightarrow> Inl err
                      | Inr issues \<Rightarrow> if issues = 0 then Inr () else Inl AssertionError)) of
        Inl ImportError \<Rightarrow>
          (Inr (), emit (Print ''Static analisys available only if django CMS is installed'') w)
      | Inl err \<Rightarrow> (Inl err, w)
      | Inr u \<Rightarrow> (Inr (), w))"

section \<open>Dispatch\<close>

text \<open>\<open>os.environ.setdefault\<close>: a variable that is set keeps its value.\<close>

definition setdefault :: "string \<Rightarrow> string \<Rightarrow> (string \<times> string) list \<Rightarrow> (string \<times> string) list" where
  "setdefault k v kvs = (case map_of kvs k of None \<Rightarrow> kvs @ [(k, v)] | Some old \<Rightarrow> kvs)"

text \<open>
  The \<open>with context:\<close> of the test branch: the virtual display when \<open>--xvfb\<close> is given
  (importing its wrapper may fail), and a context that does nothing otherwise.
\<close>

definition with_context ::
  "env \<Rightarrow> bool \<Rightarrow> (world \<Rightarrow> (exc + 'a) \<times> world) \<Rightarrow> world \<Rightarrow> (exc + 'a) \<times> world" where
  "with_context e use_xvfb body w =
     (if use_xvfb then
        (if xvfbwrapper e
         then (case body (emit XvfbStart w) of (r, w') \<Rightarrow> (r, emit XvfbStop w'))
         else (Inl ImportError, w))
      else body w)"

text \<open>
  \<open>core\<close>: both temporary directories are opened, the settings are made, and the first
  command whose flag is set runs. The test branch always ends in \<open>sys.exit\<close>.
\<close>

definition run_command ::
  "env \<Rightarrow> args \<Rightarrow> string \<Rightarrow> path \<Rightarrow> path \<Rightarrow> world \<Rightarrow> (exc + unit) \<times> world" where
  "run_command e a application STATIC_ROOT MEDIA_ROOT w =
     (case make_settings e a application STATIC_ROOT MEDIA_ROOT (dirs w) of
        (Some err, ds) \<Rightarrow> (Inl err, emit (MakeSettings STATIC_ROOT MEDIA_ROOT) (w\<lparr>dirs := ds\<rparr>))
      | (None, ds) \<Rightarrow>
          (let w1 = emit (MakeSettings STATIC_ROOT MEDIA_ROOT) (w\<lparr>dirs := ds\<rparr>)
           in if arg_test a then
                with_context e (arg_xvfb a)
                  (\<lambda>w2. case test e (arg_test_label a) application (arg_failfast a)
                                 (arg_runner a) w2 of
                           (Inl err, w3) \<Rightarrow> (Inl err, w3)
                         | (Inr num_failures, w3) \<Rightarrow> (Inl (SystemExit num_failures), w3))
                  (w1\<lparr>environ := setdefault ''DJANGO_LIVE_TEST_SERVER_ADDRESS''
                                     ''localhost:8000-9000'' (environ w1)\<rparr>)
              else if arg_shell a then shell e w1
              else if arg_compilemessages a then compilemessages e application w1
              else if arg_makemessages a then makemessages e application w1
              else if arg_makemigrations a then makemigrations e application w1
              else if arg_pyflakes a then static_analisys e application w1
              else if arg_authors a then generate_authors e w1
              else (Inr (), w1)))"

definition core :: "env \<Rightarrow> args \<Rightarrow> string \<Rightarrow> world \<Rightarrow> (exc + unit) \<times> world" where
  "core e a application w =
     temp_dir e (\<lambda>STATIC_ROOT.
       temp_dir e (\<lambda>MEDIA_ROOT.
         run_command e a application STATIC_ROOT MEDIA_ROOT)) w"

section \<open>The command line\<close>

text \<open>
  \<open>docopt\<close> is a library; what follows is its reading of the usage text in \<open>__doc__\<close>:
  seven usage lines, each \<open><application>\<close> followed by one command word and the options
  that line allows. Long options may be abbreviated to a unique prefix; \<open>--runner\<close> and
  \<open>--extra-settings\<close> take a value, after \<open>=\<close> or as the next word.
\<close>

definition operations :: "string list" where
  "operations = [''test'', ''shell'', ''compilemessages'', ''makemessages'',
                 ''makemigrations'', ''pyflakes'', ''authors'']"

definition option_table :: "(string \<times> bool) list" where
  "option_table = [(''--help'', False), (''--version'', False), (''--migrate'', False),
                   (''--cms'', False), (''--failfast'', False), (''--xvfb'', False),
                   (''--extra-settings'', True), (''--runner'', True)]"

datatype parsed = Opt string "string option" | Arg string

text \<open>
  One long option. The result says whether the next word was taken as the value.
  An unknown option is kept and fails later, when the usage lines are matched.
\<close>

definition parse_long :: "string \<Rightarrow> string option \<Rightarrow> exc + parsed \<times> bool" where
  "parse_long tok next_tok =
     (let long = takeWhile (\<lambda>c. c \<noteq> CHR ''='') tok;
          rest = dropWhile (\<lambda>c. c \<noteq> CHR ''='') tok;
          val = (if rest = [] then None else Some (tl rest));
          exact = filter (\<lambda>(n, takes). n = long) option_table;
          similar = (if exact = [] then filter (\<lambda>(n, takes). startswith n long) option_table
                     else exact)
      in case similar of
           [] \<Rightarrow> Inr (Opt long val, False)
         | [(n, takes)] \<Rightarrow>
             (if \<not> takes then
                (if val \<noteq> None then Inl DocoptExit else Inr (Opt n None, False))
              else
                (case val of
                   Some v \<Rightarrow> Inr (Opt n (Some v), False)
                 | None \<Rightarrow>
                     (case next_tok of
                        None \<Rightarrow> Inl DocoptExit
                      | Some t \<Rightarrow>
                          if t = ''--'' then Inl DocoptExit else Inr (Opt n (Some t), True))))
         | _ \<Rightarrow> Inl DocoptExit)"

text \<open>The short options of one word; only \<open>-h\<close> is known, and it stands for \<open>--help\<close>.\<close>

definition parse_shorts :: "string \<Rightarrow> parsed list" where
  "parse_shorts tok =
     map (\<lambda>c. if c = CHR ''h'' then Opt ''--help'' None else Opt [CHR ''-'', c] None) (tl tok)"

function parse_argv :: "string list \<Rightarrow> exc + parsed list" where
  "parse_argv [] = Inr []"
| "parse_argv (tok # toks) =
     (if tok = ''--'' then Inr (map Arg (tok # toks))
      else if startswith tok ''--'' then
        (case parse_long tok (case toks of [] \<Rightarrow> None | t # ts \<Rightarrow> Some t) of
           Inl err \<Rightarrow> Inl err
         | Inr (opt, took_next) \<Rightarrow>
             (case parse_argv (if took_next then tl toks else toks) of
                Inl err \<Rightarrow> Inl err
              | Inr ps \<Rightarrow> Inr (opt # ps)))
      else if startswith tok ''-'' \<and> tok \<noteq> ''-'' then
        (case parse_argv toks of
           Inl err \<Rightarrow> Inl err
         | Inr ps \<Rightarrow> Inr (parse_shorts tok @ ps))
      else
        (case parse_argv toks of
           Inl err \<Rightarrow> Inl err
         | Inr ps \<Rightarrow> Inr (Arg tok # ps)))"
  by pat_completeness auto
termination
  by (relation "measure length") auto

fun positionals :: "parsed list \<Rightarrow> string list" where
  "positionals [] = []"
| "positionals (Arg v # ps) = v # positionals ps"
| "positionals (Opt n v # ps) = positionals ps"

fun given_options :: "parsed list \<Rightarrow> (string \<times> string option) list" where
  "given_options [] = []"
| "given_options (Arg v # ps) = given_options ps"
| "given_options (Opt n v # ps) = (n, v) # given_options ps"

text \<open>
  Matching the usage lines: the first positional word is the application, the second
  must be the command word of a line, further positional words are test labels and
  only the \<open>test\<close> line has them; every option given must be allowed by that line and
  may appear once.
\<close>

definition allowed_options :: "string \<Rightarrow> string list" where
  "allowed_options op =
     (if op = ''test''
      then [''--failfast'', ''--migrate'', ''--xvfb'', ''--runner'', ''--extra-settings'', ''--cms'']
      else [''--extra-settings'', ''--cms''])"

definition match_usage :: "parsed list \<Rightarrow> exc + args" where
  "match_usage ps =
     (let opts = given_options ps; names = map fst opts
      in case positionals ps of
           app # op # labels \<Rightarrow>
             (if op \<in> set operations \<and> (op = ''test'' \<or> labels = [])
                 \<and> distinct names \<and> set names \<subseteq> set (allowed_options op)
              then Inr \<lparr>arg_application = app,
                        arg_test = (op = ''test''),
                        arg_shell = (op = ''shell''),
                        arg_compilemessages = (op = ''compilemessages''),
                        arg_makemessages = (op = ''makemessages''),
                        arg_makemigrations = (op = ''makemigrations''),
                        arg_pyflakes = (op = ''pyflakes''),
                        arg_authors = (op = ''authors''),
                        arg_test_label = labels,
                        arg_failfast = (''--failfast'' \<in> set names),
                        arg_migrate = (''--migrate'' \<in> set names),
                        arg_xvfb = (''--xvfb'' \<in> set names),
                        arg_runner = (case map_of opts ''--runner'' of None \<Rightarrow> None | Some v \<Rightarrow> v),
                        arg_extra_settings =
                          (case map_of opts ''--extra-settings'' of None \<Rightarrow> None | Some v \<Rightarrow> v),
                        arg_cms = (''--cms'' \<in> set names)\<rparr>
              else Inl DocoptExit)
         | _ \<Rightarrow> Inl DocoptExit)"

text \<open>
  \<open>docopt(__doc__, version=...)\<close>: a word that cannot be parsed ends in \<open>DocoptExit\<close>;
  \<open>--help\<close>, and \<open>--version\<close> when a version is supplied, print and exit; otherwise the
  words are matched against the usage lines.
\<close>

definition docopt :: "string option \<Rightarrow> string list \<Rightarrow> exc + args" where
  "docopt version argv =
     (case parse_argv argv of
        Inl err \<Rightarrow> Inl err
      | Inr ps \<Rightarrow>
          if ''--help'' \<in> set (map fst (given_options ps)) then Inl (SystemExit 0)
          else if version \<noteq> None \<and> ''--version'' \<in> set (map fst (given_options ps))
          then Inl (SystemExit 0)
          else match_usage ps)"

text \<open>The command word of a raw command line: its second positional word, if any.\<close>

definition keyword :: "string list \<Rightarrow> string option" where
  "keyword argv =
     (case parse_argv argv of
        Inl err \<Rightarrow> None
      | Inr ps \<Rightarrow> (case positionals ps of app # op # labels \<Rightarrow> Some op | _ \<Rightarrow> None))"

text \<open>
  \<open>main\<close>: the command line is parsed, the application is imported for its
  \<open>__version__\<close>, the command line is parsed again with the version, and only then
  \<open>core\<close> runs.
\<close>

definition main :: "env \<Rightarrow> string list \<Rightarrow> world \<Rightarrow> (exc + unit) \<times> world" where
  "main e argv w =
     (case docopt None argv of
        Inl err \<Rightarrow> (Inl err, w)
      | Inr a \<Rightarrow>
          (case import_module e (arg_application a) of
             Inl err \<Rightarrow> (Inl err, w)
           | Inr application_module \<Rightarrow>
               (case module_version application_module of
                  None \<Rightarrow> (Inl (OtherError ''AttributeError''), w)
                | Some version \<Rightarrow>
                    (case docopt (Some version) argv of
                       Inl err \<Rightarrow> (Inl err, w)
                     | Inr a' \<Rightarrow> core e a' (arg_application a) w))))"

section \<open>Observations\<close>

text \<open>What a command added to the trace.\<close>

definition new_events :: "world \<Rightarrow> world \<Rightarrow> event list" where
  "new_events w w' = drop (length (trace w)) (trace w')"

text \<open>A directory is on disk when its path, or a path below it, exists.\<close>

definition on_disk :: "path \<Rightarrow> path list \<Rightarrow> bool" where
  "on_disk name ds = list_ex (\<lambda>p. p = name \<or> startswith p (name @ ''/'')) ds"



text \<open>The commands called, by name, and whether a traced call carries a true flag.\<close>

fun called_commands :: "event list \<Rightarrow> string list" where
  "called_commands [] = []"
| "called_commands (CallCommand (Call name pos kws) # evs) = name # called_commands evs"
| "called_commands (ev # evs) = called_commands evs"

fun selects :: "string \<Rightarrow> event \<Rightarrow> bool" where
  "selects flag (CallCommand (Call name pos kws)) = (KBool flag True \<in> set kws)"
| "selects flag ev = False"

text \<open>
  The exit code of the process for an outcome of \<open>main\<close>, as the interpreter and a POSIX
  system give it: 0 after a normal return; for \<open>sys.exit(n)\<close> the low eight bits of
  \<open>n\<close>; 1 for the usage message of the parser and for any exception that is not
  caught.
\<close>

fun exit_code :: "exc + 'a \<Rightarrow> int" where
  "exit_code (Inr v) = 0"
| "exit_code (Inl (SystemExit n)) = n mod 256"
| "exit_code (Inl err) = 1"

text \<open>
  A command line is malformed, measured against the usage text, when a word cannot be
  parsed as an option, when the application or the command word is missing, when the
  command word is not one of the seven, when a command other than \<open>test\<close> is given
  further positional words, when an option is given twice, or when an option is given
  that the usage line of the command does not list.
\<close>

definition malformed :: "string list \<Rightarrow> bool" where
  "malformed argv =
     (case parse_argv argv of
        Inl err \<Rightarrow> True
      | Inr ps \<Rightarrow>
          (case positionals ps of
             app # op # labels \<Rightarrow>
               op \<notin> set operations
               \<or> (op \<noteq> ''test'' \<and> labels \<noteq> [])
               \<or> \<not> distinct (map fst (given_options ps))
               \<or> list_ex (\<lambda>name. name \<notin> set (allowed_options op)) (map fst (given_options ps))
           | _ \<Rightarrow> True))"

text \<open>A small environment and an empty world, for concrete runs.\<close>

definition env0 :: env where
  "env0 = \<lparr>DJANGO_1_5 = False, DJANGO_1_6 = False,
           mkdtemp = (\<lambda>ds. Inr (''/tmp/d'' @ str_nat (length ds))),
           make_settings = (\<lambda>a app s m ds. (None, ds)),
           iter_modules = (\<lambda>d. [''test_models'']),
           readmodule = (\<lambda>n. Inr [(''ModelTest'',
                                    \<lparr>methods = [(''test_save'', 7), (''setUp'', 3)]\<rparr>)]),
           run_tests = (\<lambda>labels failfast runner ds.
                          (Inr 2, (case ds of [] \<Rightarrow> [] | d # rest \<Rightarrow> (d @ ''/upload.png'') # ds))),
           call_command = (\<lambda>c ds. (None, ds)),
           load_from_file = (\<lambda>p. Inl IOError),
           import_module = (\<lambda>n. Inr (Module n (Some ''0.1''))),
           cms_static_analysis = True,
           pyflakes = (\<lambda>n. Inr 3),
           xvfbwrapper = False,
           git_log = Inr (''Carol'' @ [nl] @ ''alice'' @ [nl]),
           open_read = (\<lambda>p. Inr (''* Alice'' @ [nl] @ ''* bob'' @ [nl]))\<rparr>"

definition world0 :: world where
  "world0 = \<lparr>dirs = [], cwd = ''/home/dev/plugin'', environ = [], trace = []\<rparr>"

definition args0 :: args where
  "args0 = \<lparr>arg_application = ''app'', arg_test = False, arg_shell = False,
            arg_compilemessages = False, arg_makemessages = False,
            arg_makemigrations = False, arg_pyflakes = False, arg_authors = False,
            arg_test_label = [], arg_failfast = False, arg_migrate = False,
            arg_xvfb = False, arg_runner = None, arg_extra_settings = None,
            arg_cms = False\<rparr>"

section \<open>Properties of the test discoverer\<close>

lemma methods_loop_eq:
  "methods_loop a c ms acc =
     acc @ map (test_label a c) (filter (\<lambda>m. startswith m ''test_'') (map fst ms))"
  by (induction a c ms acc rule: methods_loop.induct) auto

lemma test_methods_Nil: "test_methods [] = []"
  by (simp add: test_methods_def)

lemma test_methods_Cons:
  "test_methods ((c, cls) # cs) =
     map (Pair c) (filter (\<lambda>m. startswith m ''test_'') (map fst (methods cls))) @ test_methods cs"
  by (simp add: test_methods_def)

lemma test_methods_append: "test_methods (xs @ ys) = test_methods xs @ test_methods ys"
  by (simp add: test_methods_def)

lemma classes_loop_eq:
  "classes_loop a cs acc = acc @ map (\<lambda>(c, m). test_label a c m) (test_methods cs)"
  by (induction a cs acc rule: classes_loop.induct)
     (auto simp: methods_loop_eq test_methods_Nil test_methods_Cons comp_def)

lemma modules_loop_eq:
  "modules_loop rm a mods acc = Inr ls \<Longrightarrow>
     ls = acc @ map (\<lambda>(c, m). test_label a c m) (test_methods (read_members rm a mods))"
  by (induction rm a mods acc arbitrary: ls rule: modules_loop.induct)
     (auto simp: classes_loop_eq test_methods_Nil test_methods_append split: sum.splits)

lemma get_test_labels_eq:
  "get_test_labels im rm a = Inr ls \<Longrightarrow>
   ls = sort (map (\<lambda>(c, m). test_label a c m)
                  (test_methods (read_members rm a (im (a @ ''/tests'')))))"
  by (auto simp: get_test_labels_def split: sum.splits dest: modules_loop_eq)

lemma sep_unique:
  "d \<notin> set xs \<Longrightarrow> d \<notin> set xs' \<Longrightarrow> xs @ d # ys = xs' @ d # ys' \<Longrightarrow> xs = xs' \<and> ys = ys'"
  by (induction xs arbitrary: xs') (auto simp: Cons_eq_append_conv append_eq_Cons_conv)

lemma test_label_inj:
  "CHR ''.'' \<notin> set c \<Longrightarrow> CHR ''.'' \<notin> set c' \<Longrightarrow>
   test_label a c m = test_label a c' m' \<Longrightarrow> c = c' \<and> m = m'"
  using sep_unique [of "CHR ''.''" c c' m m'] by (simp add: test_label_def)

lemma test_methods_classes:
  "(c, m) \<in> set (test_methods members) \<Longrightarrow> c \<in> fst ` set members"
  by (induction members) (auto simp: test_methods_Nil test_methods_Cons)

lemma labels_distinct:
  assumes dots: "\<forall>c \<in> fst ` set members. CHR ''.'' \<notin> set c"
    and d: "distinct (test_methods members)"
  shows "distinct (map (\<lambda>(c, m). test_label a c m) (test_methods members))"
proof -
  have "inj_on (\<lambda>(c, m). test_label a c m) (set (test_methods members))"
  proof (rule inj_onI)
    fix x y
    assume x: "x \<in> set (test_methods members)" and y: "y \<in> set (test_methods members)"
      and e: "(case x of (c, m) \<Rightarrow> test_label a c m) = (case y of (c, m) \<Rightarrow> test_label a c m)"
    obtain c m where xe: "x = (c, m)" by (cases x)
    obtain c' m' where ye: "y = (c', m')" by (cases y)
    have "c \<in> fst ` set members"
      using test_methods_classes [of c m members] x xe by simp
    with dots have c1: "CHR ''.'' \<notin> set c" by (rule bspec)
    have "c' \<in> fst ` set members"
      using test_methods_classes [of c' m' members] y ye by simp
    with dots have c2: "CHR ''.'' \<notin> set c'" by (rule bspec)
    have "test_label a c m = test_label a c' m'" using e xe ye by simp
    from test_label_inj [OF c1 c2 this] show "x = y" using xe ye by simp
  qed
  with d show ?thesis by (simp add: distinct_map)
qed

lemma modules_loop_total:
  "(\<forall>module \<in> set mods. \<exists>members. rm (a @ ''.tests.'' @ module) = Inr members) \<Longrightarrow>
   \<exists>ls. modules_loop rm a mods acc = Inr ls"
  by (induction rm a mods acc rule: modules_loop.induct) auto

lemma get_test_labels_total:
  "(\<forall>module \<in> set (im (a @ ''/tests'')). \<exists>members. rm (a @ ''.tests.'' @ module) = Inr members) \<Longrightarrow>
   \<exists>labels. get_test_labels im rm a = Inr labels"
  using modules_loop_total [of "im (a @ ''/tests'')" rm a "[]"]
  by (auto simp: get_test_labels_def)

text \<open>
  Claim C7. Discovery returns when every module under the tests directory can be read.
  When it returns, its labels are in lexicographic order, and they are, with
  multiplicity, the labels \<open>application.ClassName.methodName\<close> of the methods in the
  modules read whose names begin with \<open>test_\<close>: one label for each such method, none
  for any other method.
\<close>

theorem discovery_one_label_per_test_method:
  "((\<forall>module \<in> set (im (application @ ''/tests'')).
       \<exists>members. rm (application @ ''.tests.'' @ module) = Inr members) \<longrightarrow>
     (\<exists>found. get_test_labels im rm application = Inr found))
   \<and> (get_test_labels im rm application = Inr labels \<longrightarrow>
        sorted labels \<and>
        mset labels =
          mset (map (\<lambda>(c, m). test_label application c m)
                 (test_methods (read_members rm application (im (application @ ''/tests''))))))"
  using get_test_labels_total [of im application rm] get_test_labels_eq [of im rm application labels]
  by auto

theorem discovery_one_label_per_test_method_witness:
  "get_test_labels (\<lambda>d. [''test_models''])
     (\<lambda>n. Inr [(''ModelTest'', \<lparr>methods = [(''test_save'', 7), (''setUp'', 3), (''test_add'', 12)]\<rparr>)])
     ''app'' = Inr [''app.ModelTest.test_add'', ''app.ModelTest.test_save'']
   \<and> sorted [''app.ModelTest.test_add'', ''app.ModelTest.test_save'']
   \<and> mset [''app.ModelTest.test_add'', ''app.ModelTest.test_save''] =
       mset (map (\<lambda>(c, m). test_label ''app'' c m)
         (test_methods (read_members
            (\<lambda>n. Inr [(''ModelTest'', \<lparr>methods = [(''test_save'', 7), (''setUp'', 3), (''test_add'', 12)]\<rparr>)])
            ''app'' [''test_models''])))"
proof -
  let ?im = "\<lambda>d::string. [''test_models'']"
  let ?rm = "\<lambda>n::string. Inr [(''ModelTest'',
               \<lparr>methods = [(''test_save'', 7::nat), (''setUp'', 3), (''test_add'', 12)]\<rparr>)]
             :: exc + clsmembers"
  have a: "\<forall>module \<in> set (?im (''app'' @ ''/tests'')).
             \<exists>members. ?rm (''app'' @ ''.tests.'' @ module) = Inr members"
    by simp
  have h: "get_test_labels ?im ?rm ''app'' = Inr [''app.ModelTest.test_add'', ''app.ModelTest.test_save'']"
    by (simp add: get_test_labels_def startswith_def test_label_def)
  note t = discovery_one_label_per_test_method
             [where im = ?im and rm = ?rm and application = "''app''"
                and labels = "[''app.ModelTest.test_add'', ''app.ModelTest.test_save'']"]
  from t a have "\<exists>found. get_test_labels ?im ?rm ''app'' = Inr found" by blast
  from t h have "sorted [''app.ModelTest.test_add'', ''app.ModelTest.test_save''] \<and>
        mset [''app.ModelTest.test_add'', ''app.ModelTest.test_save''] =
          mset (map (\<lambda>(c, m). test_label ''app'' c m)
                 (test_methods (read_members ?rm ''app'' (?im (''app'' @ ''/tests'')))))"
    by blast
  with h show ?thesis by simp
qed

text \<open>
  Claim C2, as stated, fails: the label names the class, not the module. Two modules
  \<open>test_a\<close> and \<open>test_b\<close> that each define a class \<open>FooTest\<close> with a method \<open>test_x\<close>
  yield the label \<open>app.FooTest.test_x\<close> twice.
\<close>

theorem discovery_duplicates_counterexample:
  "get_test_labels (\<lambda>d. [''test_a'', ''test_b''])
     (\<lambda>n. if n = ''app.tests.test_a'' then Inr [(''FooTest'', \<lparr>methods = [(''test_x'', 3)]\<rparr>)]
          else if n = ''app.tests.test_b'' then Inr [(''FooTest'', \<lparr>methods = [(''test_x'', 8)]\<rparr>)]
          else Inl ImportError) ''app''
     = Inr [''app.FooTest.test_x'', ''app.FooTest.test_x'']
   \<and> \<not> distinct [''app.FooTest.test_x'', ''app.FooTest.test_x'']"
  by (simp add: get_test_labels_def startswith_def test_label_def)

text \<open>
  Claim C2, amended. When discovery returns, its labels are in lexicographic order; they
  are free of duplicates when no class name holds a dot and no pair of class name and
  test method name occurs twice among the modules read.
\<close>

theorem discovery_sorted_distinct_by_class:
  assumes "get_test_labels im rm application = Inr labels"
  shows "sorted labels \<and>
         ((\<forall>c \<in> fst ` set (read_members rm application (im (application @ ''/tests''))).
              CHR ''.'' \<notin> set c) \<and>
          distinct (test_methods (read_members rm application (im (application @ ''/tests''))))
          \<longrightarrow> distinct labels)"
proof -
  have eq: "labels = sort (map (\<lambda>(c, m). test_label application c m)
              (test_methods (read_members rm application (im (application @ ''/tests'')))))"
    using get_test_labels_eq [OF assms] .
  have s: "sorted labels" by (subst eq) simp
  have "distinct labels"
    if "\<forall>c \<in> fst ` set (read_members rm application (im (application @ ''/tests''))).
              CHR ''.'' \<notin> set c"
      and "distinct (test_methods (read_members rm application (im (application @ ''/tests''))))"
    using labels_distinct [OF that] by (subst eq) simp
  with s show ?thesis by blast
qed

theorem discovery_sorted_distinct_by_class_witness:
  "get_test_labels (\<lambda>d. [''test_a'', ''test_b''])
     (\<lambda>n. if n = ''app.tests.test_a'' then Inr [(''FooTest'', \<lparr>methods = [(''test_x'', 3)]\<rparr>)]
          else if n = ''app.tests.test_b'' then Inr [(''BarTest'', \<lparr>methods = [(''test_x'', 8)]\<rparr>)]
          else Inl ImportError) ''app''
     = Inr [''app.BarTest.test_x'', ''app.FooTest.test_x'']
   \<and> sorted [''app.BarTest.test_x'', ''app.FooTest.test_x'']
   \<and> distinct [''app.BarTest.test_x'', ''app.FooTest.test_x'']"
proof -
  let ?im = "\<lambda>d::string. [''test_a'', ''test_b'']"
  let ?rm = "\<lambda>n. if n = ''app.tests.test_a'' then Inr [(''FooTest'', \<lparr>methods = [(''test_x'', 3::nat)]\<rparr>)]
          else if n = ''app.tests.test_b'' then Inr [(''BarTest'', \<lparr>methods = [(''test_x'', 8)]\<rparr>)]
          else Inl ImportError"
  have h: "get_test_labels ?im ?rm ''app'' = Inr [''app.BarTest.test_x'', ''app.FooTest.test_x'']"
    by (simp add: get_test_labels_def startswith_def test_label_def)
  have a: "\<forall>c \<in> fst ` set (read_members ?rm ''app'' (?im (''app'' @ ''/tests''))).
             CHR ''.'' \<notin> set c"
    by simp
  have b: "distinct (test_methods (read_members ?rm ''app'' (?im (''app'' @ ''/tests''))))"
    by (simp add: test_methods_def startswith_def)
  from discovery_sorted_distinct_by_class [OF h] a b h show ?thesis by blast
qed

section \<open>Properties of the author list\<close>

lemma file_loop_fold:
  "file_loop ls st =
     fold add_author (map (strip_chars [CHR ''*'', CHR '' '', nl])
                          (filter (\<lambda>line. startswith line ''*'') ls)) st"
  by (induction ls st rule: file_loop.induct) auto

lemma log_loop_fold: "log_loop ls st = fold add_author (map strip ls) st"
  by (induction ls st rule: log_loop.induct) auto

lemma fold_add_author:
  "fold add_author xs (map lower as, as) =
     (map lower (as @ dedup_ci (filter (\<lambda>y. lower y \<notin> lower ` set as) xs)),
      as @ dedup_ci (filter (\<lambda>y. lower y \<notin> lower ` set as) xs))"
proof (induction xs arbitrary: as)
  case Nil
  then show ?case by simp
next
  case (Cons x xs)
  show ?case
  proof (cases "lower x \<in> lower ` set as")
    case True
    then have "add_author x (map lower as, as) = (map lower as, as)"
      by (simp add: add_author_def)
    with True Cons.IH [of as] show ?thesis by simp
  next
    case False
    then have step: "add_author x (map lower as, as) = (map lower (as @ [x]), as @ [x])"
      by (simp add: add_author_def)
    let ?rest = "dedup_ci (filter (\<lambda>y. lower y \<noteq> lower x)
                   (filter (\<lambda>y. lower y \<notin> lower ` set as) xs))"
    have flt: "filter (\<lambda>y. lower y \<notin> lower ` set (as @ [x])) xs =
               filter (\<lambda>y. lower y \<noteq> lower x) (filter (\<lambda>y. lower y \<notin> lower ` set as) xs)"
      by (auto intro: filter_cong)
    have rhs: "dedup_ci (filter (\<lambda>y. lower y \<notin> lower ` set as) (x # xs)) = x # ?rest"
      using False by simp
    have "fold add_author (x # xs) (map lower as, as) =
          fold add_author xs (map lower (as @ [x]), as @ [x])"
      by (simp only: fold_simps step comp_def)
    also have "\<dots> = (map lower ((as @ [x]) @ ?rest), (as @ [x]) @ ?rest)"
      by (simp only: Cons.IH [of "as @ [x]"] flt)
    also have "\<dots> = (map lower (as @ x # ?rest), as @ x # ?rest)"
      by simp
    finally show ?thesis by (simp only: rhs)
  qed
qed

lemma merged_authors_spec: "merged_authors f l = authors_spec f l"
proof -
  have "log_loop (readlines l) (file_loop (readlines f) ([], [])) =
        fold add_author (file_authors f @ log_authors l) (map lower [], [])"
    by (simp add: file_loop_fold log_loop_fold file_authors_def log_authors_def)
  also have "\<dots> = (map lower (dedup_ci (file_authors f @ log_authors l)),
                   dedup_ci (file_authors f @ log_authors l))"
    using fold_add_author [of "file_authors f @ log_authors l" "[]"] by simp
  finally show ?thesis by (simp add: merged_authors_def authors_spec_def)
qed

lemma example_merge:
  "merged_authors (''* Alice'' @ [nl] @ ''* bob'' @ [nl]) (''Carol'' @ [nl] @ ''alice'' @ [nl])
     = [''Alice'', ''bob'', ''Carol'']"
  by code_simp

lemma new_events_emit: "new_events w (emit ev w) = [ev]"
  by (simp add: new_events_def emit_def)

lemma trace_emit: "trace (emit ev w) = trace w @ [ev]"
  by (simp add: emit_def)

lemma dirs_emit: "dirs (emit ev w) = dirs w"
  by (simp add: emit_def)

text \<open>
  Claim C3. The list the Authors operation prints is the one the spec describes: file
  authors first, then log authors, duplicates dropped without regard to case keeping the
  first spelling, sorted without regard to case. When git log and the file AUTHORS can be
  read, the operation returns normally and prints that list after its two progress
  lines. For the file \<open>* Alice\<close>, \<open>* bob\<close> and the log \<open>Carol\<close>, \<open>alice\<close> the list is
  Alice, bob, Carol.
\<close>

theorem generate_authors_merge:
  "merged_authors f l = authors_spec f l
   \<and> (git_log e = Inr l \<and> open_read e ''AUTHORS'' = Inr f \<longrightarrow>
        fst (generate_authors e w) = Inr () \<and>
        new_events w (snd (generate_authors e w)) =
          [Print ''Generating AUTHORS'', Print ''Collecting author names'',
           Print (authors_text (authors_spec f l))])
   \<and> merged_authors (''* Alice'' @ [nl] @ ''* bob'' @ [nl]) (''Carol'' @ [nl] @ ''alice'' @ [nl])
       = [''Alice'', ''bob'', ''Carol'']"
proof (intro conjI impI)
  show "merged_authors f l = authors_spec f l" by (rule merged_authors_spec)
next
  assume a: "git_log e = Inr l \<and> open_read e ''AUTHORS'' = Inr f"
  then show "fst (generate_authors e w) = Inr ()"
    by (simp add: generate_authors_def Let_def)
  from a show "new_events w (snd (generate_authors e w)) =
          [Print ''Generating AUTHORS'', Print ''Collecting author names'',
           Print (authors_text (authors_spec f l))]"
    by (simp add: generate_authors_def Let_def new_events_def trace_emit merged_authors_spec)
next
  show "merged_authors (''* Alice'' @ [nl] @ ''* bob'' @ [nl]) (''Carol'' @ [nl] @ ''alice'' @ [nl])
       = [''Alice'', ''bob'', ''Carol'']"
    by (rule example_merge)
qed

theorem generate_authors_merge_witness:
  "git_log env0 = Inr (''Carol'' @ [nl] @ ''alice'' @ [nl])
   \<and> open_read env0 ''AUTHORS'' = Inr (''* Alice'' @ [nl] @ ''* bob'' @ [nl])
   \<and> fst (generate_authors env0 world0) = Inr ()
   \<and> new_events world0 (snd (generate_authors env0 world0)) =
          [Print ''Generating AUTHORS'', Print ''Collecting author names'',
           Print (authors_text [''Alice'', ''bob'', ''Carol''])]"
proof -
  let ?f = "''* Alice'' @ [nl] @ ''* bob'' @ [nl]"
  let ?l = "''Carol'' @ [nl] @ ''alice'' @ [nl]"
  have g: "git_log env0 = Inr ?l" by (simp add: env0_def)
  have o: "open_read env0 ''AUTHORS'' = Inr ?f" by (simp add: env0_def)
  note t = generate_authors_merge [of ?f ?l env0 world0]
  have c1: "merged_authors ?f ?l = authors_spec ?f ?l" using t by (rule conjunct1)
  have c3: "merged_authors ?f ?l = [''Alice'', ''bob'', ''Carol'']"
    using t [THEN conjunct2] by (rule conjunct2)
  have s: "authors_spec ?f ?l = [''Alice'', ''bob'', ''Carol'']"
    using c1 [symmetric] c3 by (rule trans)
  have pre: "git_log env0 = Inr ?l \<and> open_read env0 ''AUTHORS'' = Inr ?f"
    using g o by (rule conjI)
  have r: "fst (generate_authors env0 world0) = Inr () \<and>
        new_events world0 (snd (generate_authors env0 world0)) =
          [Print ''Generating AUTHORS'', Print ''Collecting author names'',
           Print (authors_text (authors_spec ?f ?l))]"
    using t [THEN conjunct2, THEN conjunct1] pre by (rule mp)
  have r1: "fst (generate_authors env0 world0) = Inr ()" using r by (rule conjunct1)
  have r2: "new_events world0 (snd (generate_authors env0 world0)) =
          [Print ''Generating AUTHORS'', Print ''Collecting author names'',
           Print (authors_text [''Alice'', ''bob'', ''Carol''])]"
    using r [THEN conjunct2] by (simp only: s)
  show ?thesis by (rule conjI [OF g conjI [OF o conjI [OF r1 r2]]])
qed

section \<open>Properties of the scoped resources\<close>

lemma not_on_disk_rmtree: "\<not> on_disk name (rmtree name ds)"
  by (simp add: on_disk_def rmtree_def list_ex_iff)

lemma on_disk_rmtree_mono: "on_disk name (rmtree other ds) \<Longrightarrow> on_disk name ds"
  by (auto simp: on_disk_def rmtree_def list_ex_iff)

lemma temp_dir_removes:
  assumes "mkdtemp e (dirs w) = Inr name" and "temp_dir e body w = (r, w')"
  shows "\<not> on_disk name (dirs w')"
  using assms
  by (auto simp: temp_dir_def dirs_emit not_on_disk_rmtree split: prod.splits)

lemma temp_dir_result:
  assumes "mkdtemp e (dirs w) = Inr name"
  shows "temp_dir e body w =
     (fst (body name (emit (Mkdtemp name) (w\<lparr>dirs := name # dirs w\<rparr>))),
      emit (Rmtree name)
        ((snd (body name (emit (Mkdtemp name) (w\<lparr>dirs := name # dirs w\<rparr>))))
           \<lparr>dirs := rmtree name
              (dirs (snd (body name (emit (Mkdtemp name) (w\<lparr>dirs := name # dirs w\<rparr>)))))\<rparr>))"
  using assms by (simp add: temp_dir_def split: prod.splits)

text \<open>
  Claim C1. Whatever the outcome of \<open>core\<close> (a normal return, an error raised while
  the settings are made or by the handler, or the \<open>SystemExit\<close> of the test branch),
  neither temporary directory is on disk afterwards, nor anything below it: the
  static root that was created, and the media root when its creation succeeded too.
\<close>

theorem core_removes_temp_dirs:
  assumes "mkdtemp e (dirs w) = Inr STATIC_ROOT"
    and "core e a application w = (r, w')"
  shows "\<not> on_disk STATIC_ROOT (dirs w') \<and>
         (\<forall>MEDIA_ROOT. mkdtemp e (STATIC_ROOT # dirs w) = Inr MEDIA_ROOT \<longrightarrow>
            \<not> on_disk MEDIA_ROOT (dirs w'))"
proof (intro conjI allI impI)
  show "\<not> on_disk STATIC_ROOT (dirs w')"
    using temp_dir_removes [OF assms(1)] assms(2) unfolding core_def by blast
next
  fix MEDIA_ROOT
  assume m: "mkdtemp e (STATIC_ROOT # dirs w) = Inr MEDIA_ROOT"
  let ?w1 = "emit (Mkdtemp STATIC_ROOT) (w\<lparr>dirs := STATIC_ROOT # dirs w\<rparr>)"
  let ?inner = "temp_dir e (\<lambda>MEDIA_ROOT. run_command e a application STATIC_ROOT MEDIA_ROOT) ?w1"
  have m1: "mkdtemp e (dirs ?w1) = Inr MEDIA_ROOT"
    using m by (simp add: dirs_emit)
  have inner: "\<not> on_disk MEDIA_ROOT (dirs (snd ?inner))"
    using temp_dir_removes [OF m1, of _ "fst ?inner" "snd ?inner"] by simp
  have "dirs w' = rmtree STATIC_ROOT (dirs (snd ?inner))"
    using assms(2) unfolding core_def
    by (auto simp: temp_dir_result [OF assms(1)] dirs_emit)
  then show "\<not> on_disk MEDIA_ROOT (dirs w')"
    using inner on_disk_rmtree_mono by metis
qed

theorem core_removes_temp_dirs_witness:
  "mkdtemp env0 (dirs world0) = Inr ''/tmp/d0''
   \<and> mkdtemp env0 (''/tmp/d0'' # dirs world0) = Inr ''/tmp/d1''
   \<and> fst (core env0 (args0\<lparr>arg_test := True\<rparr>) ''app'' world0) = Inl (SystemExit 2)
   \<and> \<not> on_disk ''/tmp/d0'' (dirs (snd (core env0 (args0\<lparr>arg_test := True\<rparr>) ''app'' world0)))
   \<and> \<not> on_disk ''/tmp/d1'' (dirs (snd (core env0 (args0\<lparr>arg_test := True\<rparr>) ''app'' world0)))"
proof -
  let ?c = "core env0 (args0\<lparr>arg_test := True\<rparr>) ''app'' world0"
  have h1: "mkdtemp env0 (dirs world0) = Inr ''/tmp/d0''"
    by (simp add: env0_def world0_def digit_char_def)
  have h2: "mkdtemp env0 (''/tmp/d0'' # dirs world0) = Inr ''/tmp/d1''"
    by (simp add: env0_def world0_def digit_char_def)
  have h3: "?c = (fst ?c, snd ?c)" by simp
  have out: "fst ?c = Inl (SystemExit 2)" by code_simp
  from core_removes_temp_dirs [OF h1 h3] h1 h2 out show ?thesis by blast
qed

section \<open>Properties of the test handler\<close>

lemma new_events_append: "trace w' = trace w @ evs \<Longrightarrow> new_events w w' = evs"
  by (simp add: new_events_def)





section \<open>Properties of the message and analysis handlers\<close>

lemma do_call_trace: "trace (snd (do_call e c w)) = trace w @ [CallCommand c]"
  by (simp add: do_call_def trace_emit split: prod.splits)




lemma core_outcome:
  assumes "mkdtemp e (dirs w) = Inr S" and "mkdtemp e (S # dirs w) = Inr M"
  shows "fst (core e a application w) =
         fst (run_command e a application S M
               (emit (Mkdtemp M) (emit (Mkdtemp S) (w\<lparr>dirs := S # dirs w\<rparr>)
                  \<lparr>dirs := M # S # dirs w\<rparr>)))"
  using assms
  by (simp add: core_def temp_dir_result dirs_emit)

text \<open>
  Claim C9. When the analysis counts at least one issue, \<open>static_analisys\<close> raises
  \<open>AssertionError\<close>, and \<open>core\<close> passes it on, so the command fails. When the analysis
  facility cannot be imported, \<open>static_analisys\<close> prints its message and returns normally.
\<close>

theorem static_analysis_fails_loudly_or_degrades:
  "(cms_static_analysis e \<and> import_module e application = Inr m
      \<and> pyflakes e application = Inr issues \<and> issues \<noteq> 0 \<longrightarrow>
        static_analisys e application w = (Inl AssertionError, w)
        \<and> (\<forall>S M ds. mkdtemp e (dirs w0) = Inr S \<and> mkdtemp e (S # dirs w0) = Inr M
              \<and> make_settings e a application S M (M # S # dirs w0) = (None, ds)
              \<and> \<not> arg_test a \<and> \<not> arg_shell a \<and> \<not> arg_compilemessages a
              \<and> \<not> arg_makemessages a \<and> \<not> arg_makemigrations a \<and> arg_pyflakes a \<longrightarrow>
              fst (core e a application w0) = Inl AssertionError))
   \<and> (\<not> cms_static_analysis e \<longrightarrow>
        static_analisys e application w =
          (Inr (), emit (Print ''Static analisys available only if django CMS is installed'') w))"
proof (intro conjI impI allI)
  assume h: "cms_static_analysis e \<and> import_module e application = Inr m
      \<and> pyflakes e application = Inr issues \<and> issues \<noteq> 0"
  then show sa: "static_analisys e application w = (Inl AssertionError, w)" for w
    by (simp add: static_analisys_def)
  fix S M ds
  assume c: "mkdtemp e (dirs w0) = Inr S \<and> mkdtemp e (S # dirs w0) = Inr M
              \<and> make_settings e a application S M (M # S # dirs w0) = (None, ds)
              \<and> \<not> arg_test a \<and> \<not> arg_shell a \<and> \<not> arg_compilemessages a
              \<and> \<not> arg_makemessages a \<and> \<not> arg_makemigrations a \<and> arg_pyflakes a"
  then have "fst (core e a application w0) =
         fst (run_command e a application S M
               (emit (Mkdtemp M) (emit (Mkdtemp S) (w0\<lparr>dirs := S # dirs w0\<rparr>)
                  \<lparr>dirs := M # S # dirs w0\<rparr>)))"
    using core_outcome by blast
  also have "\<dots> = Inl AssertionError"
    using c by (simp add: run_command_def dirs_emit Let_def sa)
  finally show "fst (core e a application w0) = Inl AssertionError" .
next
  assume "\<not> cms_static_analysis e"
  then show "static_analisys e application w =
          (Inr (), emit (Print ''Static analisys available only if django CMS is installed'') w)"
    by (simp add: static_analisys_def)
qed


theorem static_analysis_fails_loudly_or_degrades_witness:
  "static_analisys env0 ''app'' world0 = (Inl AssertionError, world0)
   \<and> fst (core env0 (args0\<lparr>arg_pyflakes := True\<rparr>) ''app'' world0) = Inl AssertionError
   \<and> static_analisys (env0\<lparr>cms_static_analysis := False\<rparr>) ''app'' world0 =
       (Inr (), emit (Print ''Static analisys available only if django CMS is installed'') world0)"
proof -
  let ?a = "args0\<lparr>arg_pyflakes := True\<rparr>"
  have p: "cms_static_analysis env0 \<and> import_module env0 ''app'' = Inr (Module ''app'' (Some ''0.1''))
      \<and> pyflakes env0 ''app'' = Inr 3 \<and> (3::int) \<noteq> 0"
    by (simp add: env0_def)
  have q: "mkdtemp env0 (dirs world0) = Inr ''/tmp/d0''
           \<and> mkdtemp env0 (''/tmp/d0'' # dirs world0) = Inr ''/tmp/d1''
           \<and> make_settings env0 ?a ''app'' ''/tmp/d0'' ''/tmp/d1'' (''/tmp/d1'' # ''/tmp/d0'' # dirs world0)
               = (None, ''/tmp/d1'' # ''/tmp/d0'' # dirs world0)
           \<and> \<not> arg_test ?a \<and> \<not> arg_shell ?a \<and> \<not> arg_compilemessages ?a
           \<and> \<not> arg_makemessages ?a \<and> \<not> arg_makemigrations ?a \<and> arg_pyflakes ?a"
    by (simp add: env0_def world0_def args0_def digit_char_def)
  have n: "\<not> cms_static_analysis (env0\<lparr>cms_static_analysis := False\<rparr>)" by simp
  note t1 = static_analysis_fails_loudly_or_degrades
              [where e = env0 and application = "''app''" and m = "Module ''app'' (Some ''0.1'')"
                 and issues = 3 and w = world0 and ?w0.0 = world0 and a = ?a]
  note t2 = static_analysis_fails_loudly_or_degrades
              [where e = "env0\<lparr>cms_static_analysis := False\<rparr>" and application = "''app''"
                 and w = world0]
  from t1 p have a: "static_analisys env0 ''app'' world0 = (Inl AssertionError, world0)" by blast
  from t1 p q have b: "fst (core env0 ?a ''app'' world0) = Inl AssertionError" by blast
  from t2 n have c: "static_analisys (env0\<lparr>cms_static_analysis := False\<rparr>) ''app'' world0 =
       (Inr (), emit (Print ''Static analisys available only if django CMS is installed'') world0)"
    by blast
  from a b c show ?thesis by (intro conjI)
qed

section \<open>Properties of the migration handler\<close>

lemma makemigrations_south_events:
  assumes "DJANGO_1_6 e"
    and "load_from_file e (application @ ''/migrations/0001_initial.py'') = r"
    and "r = Inl IOError \<or> (\<exists>loaded. r = Inr loaded)"
  shows "new_events w (snd (makemigrations e application w)) =
     [CallCommand (Call ''schemamigration'' [application]
        [KBool ''initial'' (r = Inl IOError \<or> r = Inr None),
         KBool ''auto'' (\<not> (r = Inl IOError \<or> r = Inr None))])]"
  using assms
  by (intro new_events_append) (auto simp: makemigrations_def do_call_trace Let_def)

lemma makemigrations_plain_events:
  assumes "\<not> DJANGO_1_6 e"
  shows "new_events w (snd (makemigrations e application w)) =
     [CallCommand (Call ''makemigrations'' [application] [])]"
  using assms
  by (intro new_events_append) (simp add: makemigrations_def do_call_trace)

text \<open>
  Claim C6, as stated, fails: outside \<open>DJANGO_1_6\<close> the handler calls the command
  \<open>makemigrations\<close> with the application alone. With no initial migration file (loading
  it raises \<open>IOError\<close>) no call selects the initial mode.
\<close>

theorem makemigrations_initial_counterexample:
  "load_from_file env0 (''app'' @ ''/migrations/0001_initial.py'') = Inl IOError
   \<and> \<not> list_ex (selects ''initial'')
         (new_events world0 (snd (makemigrations env0 ''app'' world0)))"
proof -
  have "\<not> DJANGO_1_6 env0" by (simp add: env0_def)
  then have "new_events world0 (snd (makemigrations env0 ''app'' world0)) =
     [CallCommand (Call ''makemigrations'' [''app''] [])]"
    by (rule makemigrations_plain_events)
  then show ?thesis by (simp add: env0_def)
qed

text \<open>
  Claim C6, amended. Under \<open>DJANGO_1_6\<close>, when loading \<open>0001_initial\<close> either raises
  \<open>IOError\<close> or returns, the handler calls \<open>schemamigration\<close> once; it selects the initial
  mode if and only if loading raised \<open>IOError\<close> or returned nothing, and the incremental
  (auto) mode if and only if a module was loaded. Outside \<open>DJANGO_1_6\<close> it calls
  \<open>makemigrations\<close> once and selects neither mode.
\<close>

theorem makemigrations_mode:
  "(DJANGO_1_6 e \<and> load_from_file e (application @ ''/migrations/0001_initial.py'') = r
      \<and> (r = Inl IOError \<or> (\<exists>loaded. r = Inr loaded)) \<longrightarrow>
        called_commands (new_events w (snd (makemigrations e application w))) = [''schemamigration'']
        \<and> (list_ex (selects ''initial'') (new_events w (snd (makemigrations e application w)))
              \<longleftrightarrow> r = Inl IOError \<or> r = Inr None)
        \<and> (list_ex (selects ''auto'') (new_events w (snd (makemigrations e application w)))
              \<longleftrightarrow> (\<exists>m. r = Inr (Some m))))
   \<and> (\<not> DJANGO_1_6 e \<longrightarrow>
        called_commands (new_events w (snd (makemigrations e application w))) = [''makemigrations'']
        \<and> \<not> list_ex (selects ''initial'') (new_events w (snd (makemigrations e application w)))
        \<and> \<not> list_ex (selects ''auto'') (new_events w (snd (makemigrations e application w))))"
proof (intro conjI impI)
  assume h: "DJANGO_1_6 e \<and> load_from_file e (application @ ''/migrations/0001_initial.py'') = r
      \<and> (r = Inl IOError \<or> (\<exists>loaded. r = Inr loaded))"
  then have ev: "new_events w (snd (makemigrations e application w)) =
     [CallCommand (Call ''schemamigration'' [application]
        [KBool ''initial'' (r = Inl IOError \<or> r = Inr None),
         KBool ''auto'' (\<not> (r = Inl IOError \<or> r = Inr None))])]"
    using makemigrations_south_events by blast
  show "called_commands (new_events w (snd (makemigrations e application w))) = [''schemamigration'']"
    by (simp add: ev)
  show "list_ex (selects ''initial'') (new_events w (snd (makemigrations e application w)))
              \<longleftrightarrow> r = Inl IOError \<or> r = Inr None"
    by (simp add: ev)
  show "list_ex (selects ''auto'') (new_events w (snd (makemigrations e application w)))
              \<longleftrightarrow> (\<exists>m. r = Inr (Some m))"
    using h by (auto simp: ev)
next
  assume n: "\<not> DJANGO_1_6 e"
  note ev = makemigrations_plain_events [OF n, of w application]
  show "called_commands (new_events w (snd (makemigrations e application w))) = [''makemigrations'']"
    by (simp add: ev)
  show "\<not> list_ex (selects ''initial'') (new_events w (snd (makemigrations e application w)))"
    by (simp add: ev)
  show "\<not> list_ex (selects ''auto'') (new_events w (snd (makemigrations e application w)))"
    by (simp add: ev)
qed

theorem makemigrations_mode_witness:
  "list_ex (selects ''initial'')
     (new_events world0 (snd (makemigrations (env0\<lparr>DJANGO_1_6 := True\<rparr>) ''app'' world0)))
   \<and> \<not> list_ex (selects ''auto'')
     (new_events world0 (snd (makemigrations (env0\<lparr>DJANGO_1_6 := True\<rparr>) ''app'' world0)))
   \<and> list_ex (selects ''auto'')
     (new_events world0 (snd (makemigrations
        (env0\<lparr>DJANGO_1_6 := True,
              load_from_file := \<lambda>p. Inr (Some (Module ''0001_initial'' None))\<rparr>) ''app'' world0)))
   \<and> \<not> list_ex (selects ''initial'')
     (new_events world0 (snd (makemigrations
        (env0\<lparr>DJANGO_1_6 := True,
              load_from_file := \<lambda>p. Inr (Some (Module ''0001_initial'' None))\<rparr>) ''app'' world0)))
   \<and> called_commands (new_events world0 (snd (makemigrations env0 ''app'' world0)))
       = [''makemigrations'']"
proof -
  let ?e1 = "env0\<lparr>DJANGO_1_6 := True\<rparr>"
  let ?e2 = "env0\<lparr>DJANGO_1_6 := True,
                  load_from_file := \<lambda>p. Inr (Some (Module ''0001_initial'' None))\<rparr>"
  let ?r2 = "Inr (Some (Module ''0001_initial'' None)) :: exc + pymodule option"
  have p1: "DJANGO_1_6 ?e1 \<and> load_from_file ?e1 (''app'' @ ''/migrations/0001_initial.py'') = Inl IOError
      \<and> ((Inl IOError :: exc + pymodule option) = Inl IOError \<or> (\<exists>loaded. (Inl IOError :: exc + pymodule option) = Inr loaded))"
    by (simp add: env0_def)
  have p2: "DJANGO_1_6 ?e2 \<and> load_from_file ?e2 (''app'' @ ''/migrations/0001_initial.py'') = ?r2
      \<and> (?r2 = Inl IOError \<or> (\<exists>loaded. ?r2 = Inr loaded))"
    by (simp add: env0_def)
  have p3: "\<not> DJANGO_1_6 env0" by (simp add: env0_def)
  note t1 = makemigrations_mode [where e = ?e1 and application = "''app''" and w = world0
                                   and r = "Inl IOError"]
  note t2 = makemigrations_mode [where e = ?e2 and application = "''app''" and w = world0
                                   and r = ?r2]
  note t3 = makemigrations_mode [where e = env0 and application = "''app''" and w = world0]
  from t1 p1 have a: "list_ex (selects ''initial'')
       (new_events world0 (snd (makemigrations ?e1 ''app'' world0)))
     \<and> \<not> list_ex (selects ''auto'')
       (new_events world0 (snd (makemigrations ?e1 ''app'' world0)))"
    by simp
  from t2 p2 have b: "list_ex (selects ''auto'')
       (new_events world0 (snd (makemigrations ?e2 ''app'' world0)))
     \<and> \<not> list_ex (selects ''initial'')
       (new_events world0 (snd (makemigrations ?e2 ''app'' world0)))"
    by simp
  from t3 p3 have c: "called_commands (new_events world0 (snd (makemigrations env0 ''app'' world0)))
       = [''makemigrations'']"
    by blast
  from a b c show ?thesis by blast
qed

section \<open>Properties of the command line\<close>

lemma help_not_allowed: "''--help'' \<notin> set (allowed_options op)"
  by (simp add: allowed_options_def)

lemma match_usage_malformed:
  assumes "parse_argv argv = Inr ps"
  shows "malformed argv \<longleftrightarrow> match_usage ps = Inl DocoptExit"
  using assms
  by (auto simp: malformed_def match_usage_def Let_def list_ex_iff split: list.splits)

lemma docopt_malformed:
  "malformed argv \<longleftrightarrow> (\<exists>err. docopt None argv = Inl err)"
proof (cases "parse_argv argv")
  case (Inl err)
  then show ?thesis by (simp add: malformed_def docopt_def)
next
  case (Inr ps)
  show ?thesis
  proof (cases "''--help'' \<in> set (map fst (given_options ps))")
    case True
    then have "list_ex (\<lambda>name. name \<notin> set (allowed_options op))
                 (map fst (given_options ps))" for op
      unfolding list_ex_iff using help_not_allowed by blast
    then have "malformed argv"
      using Inr by (simp add: malformed_def split: list.splits)
    moreover have "docopt None argv = Inl (SystemExit 0)"
      using Inr True by (simp add: docopt_def)
    ultimately show ?thesis by simp
  next
    case False
    then have d: "docopt None argv = match_usage ps"
      using Inr by (simp add: docopt_def)
    have "(\<exists>err. match_usage ps = Inl err) \<longleftrightarrow> match_usage ps = Inl DocoptExit"
      by (auto simp: match_usage_def Let_def split: list.splits if_splits)
    then show ?thesis
      using match_usage_malformed [OF Inr] d by simp
  qed
qed

lemma unknown_keyword_malformed:
  "keyword argv \<notin> Some ` set operations \<Longrightarrow> malformed argv"
  by (auto simp: keyword_def malformed_def split: sum.splits list.splits)

text \<open>
  Claim C5. The parser rejects a command line exactly when it is malformed; a command
  line whose command word is missing or is not one of the seven operations is
  malformed, and so is one whose flags its usage line does not allow. Whenever the
  parser rejects a command line, \<open>main\<close> ends with the parser's exit and leaves the world
  as it was: no temporary directory has been created and nothing has been traced.
\<close>

theorem parse_failure_allocates_nothing:
  "(malformed argv \<longleftrightarrow> (\<exists>err. docopt None argv = Inl err))
   \<and> (keyword argv \<notin> Some ` set operations \<longrightarrow> malformed argv)
   \<and> (docopt None argv = Inl err \<longrightarrow>
        main e argv w = (Inl err, w) \<and> dirs (snd (main e argv w)) = dirs w
        \<and> new_events w (snd (main e argv w)) = [])"
  using docopt_malformed [of argv] unknown_keyword_malformed [of argv]
  by (auto simp: main_def new_events_def)

theorem parse_failure_allocates_nothing_witness:
  "keyword [''app'', ''frobnicate'', ''--cms''] \<notin> Some ` set operations
   \<and> malformed [''app'', ''frobnicate'', ''--cms'']
   \<and> main env0 [''app'', ''frobnicate'', ''--cms''] world0 = (Inl DocoptExit, world0)
   \<and> keyword [''app'', ''shell'', ''--failfast''] = Some ''shell''
   \<and> malformed [''app'', ''shell'', ''--failfast'']
   \<and> docopt None [''app'', ''shell'', ''--failfast''] = Inl DocoptExit
   \<and> main env0 [''app'', ''shell'', ''--failfast''] world0 = (Inl DocoptExit, world0)
   \<and> dirs (snd (main env0 [''app'', ''shell'', ''--failfast''] world0)) = dirs world0
   \<and> new_events world0 (snd (main env0 [''app'', ''shell'', ''--failfast''] world0)) = []
   \<and> \<not> malformed [''app'', ''test'', ''--failfast'', ''app.ModelTest.test_save'']"
proof -
  let ?u = "[''app'', ''frobnicate'', ''--cms'']"
  let ?m = "[''app'', ''shell'', ''--failfast'']"
  let ?ok = "[''app'', ''test'', ''--failfast'', ''app.ModelTest.test_save'']"
  have k: "keyword ?u = Some ''frobnicate''" by code_simp
  have k': "keyword ?u \<notin> Some ` set operations"
    unfolding k by (simp add: operations_def)
  have km: "keyword ?m = Some ''shell''" by code_simp
  have mm: "malformed ?m" by code_simp
  have du: "docopt None ?u = Inl DocoptExit" by code_simp
  have dm: "docopt None ?m = Inl DocoptExit" by code_simp
  have "\<not> isl (docopt None ?ok)" by code_simp
  then have dok: "\<not> (\<exists>err. docopt None ?ok = Inl err)" by auto
  note tu = parse_failure_allocates_nothing [where argv = ?u and err = DocoptExit
             and e = env0 and w = world0]
  note tm = parse_failure_allocates_nothing [where argv = ?m and err = DocoptExit
             and e = env0 and w = world0]
  note tok = parse_failure_allocates_nothing [where argv = ?ok and err = DocoptExit
             and e = env0 and w = world0]
  from tu k' have a: "malformed ?u" by blast
  from tu du have b: "main env0 ?u world0 = (Inl DocoptExit, world0)" by blast
  from tm mm have "\<exists>err. docopt None ?m = Inl err" by blast
  from tm dm have c: "main env0 ?m world0 = (Inl DocoptExit, world0)
      \<and> dirs (snd (main env0 ?m world0)) = dirs world0
      \<and> new_events world0 (snd (main env0 ?m world0)) = []" by blast
  from tok dok have d: "\<not> malformed ?ok" by blast
  from k' a b km mm dm c d show ?thesis by blast
qed

section \<open>Properties of the exit code\<close>

lemma core_test_outcome:
  assumes "arg_test a"
    and "mkdtemp e (dirs w) = Inr S"
    and "mkdtemp e (S # dirs w) = Inr M"
    and "make_settings e a application S M (M # S # dirs w) = (None, ds)"
    and "arg_xvfb a \<longrightarrow> xvfbwrapper e"
    and "(if arg_test_label a \<noteq> [] then Inr (arg_test_label a)
          else get_test_labels (iter_modules e) (readmodule e) application) = Inr labels"
    and "run_tests e labels (arg_failfast a) (arg_runner a) ds = (Inr n, ds')"
  shows "fst (core e a application w) = Inl (SystemExit n)"
proof -
  have t: "fst (test e (arg_test_label a) application (arg_failfast a) (arg_runner a) w2) = Inr n"
    if "dirs w2 = ds" for w2
    using assms(6,7) that
    by (auto simp: test_def test_run_worker_def dirs_emit split: if_splits)
  have b: "fst (case test e (arg_test_label a) application (arg_failfast a) (arg_runner a) w2 of
                  (Inl err, w3) \<Rightarrow> (Inl err, w3)
                | (Inr num_failures, w3) \<Rightarrow> (Inl (SystemExit num_failures), w3))
           = Inl (SystemExit n)"
    if "dirs w2 = ds" for w2
    using t [OF that] by (auto split: prod.splits sum.splits)
  let ?body = "\<lambda>w2. case test e (arg_test_label a) application (arg_failfast a) (arg_runner a) w2 of
                  (Inl err, w3) \<Rightarrow> (Inl err, w3)
                | (Inr num_failures, w3) \<Rightarrow> (Inl (SystemExit num_failures), w3)"
  have wc: "fst (with_context e (arg_xvfb a) ?body w2) = Inl (SystemExit n)"
    if d: "dirs w2 = ds" for w2
  proof (cases "arg_xvfb a")
    case True
    with assms(5) have x: "xvfbwrapper e" by simp
    have "dirs (emit XvfbStart w2) = ds" using d by (simp add: dirs_emit)
    from b [OF this] have r: "fst (?body (emit XvfbStart w2)) = Inl (SystemExit n)" .
    have "fst (with_context e (arg_xvfb a) ?body w2) = fst (?body (emit XvfbStart w2))"
      using True x by (simp only: with_context_def if_True case_prod_beta fst_conv)
    also note r
    finally show ?thesis .
  next
    case False
    from b [OF d] have "fst (?body w2) = Inl (SystemExit n)" .
    then show ?thesis using False by (simp add: with_context_def)
  qed
  let ?w0 = "emit (Mkdtemp M) (emit (Mkdtemp S) (w\<lparr>dirs := S # dirs w\<rparr>)
                  \<lparr>dirs := M # S # dirs w\<rparr>)"
  let ?w1 = "emit (MakeSettings S M) (?w0\<lparr>dirs := ds\<rparr>)"
  let ?w2 = "?w1\<lparr>environ := setdefault ''DJANGO_LIVE_TEST_SERVER_ADDRESS''
                                     ''localhost:8000-9000'' (environ ?w1)\<rparr>"
  have d0: "dirs ?w0 = M # S # dirs w" by (simp add: dirs_emit)
  have d2: "dirs ?w2 = ds" by (simp add: dirs_emit)
  have "fst (core e a application w) = fst (run_command e a application S M ?w0)"
    using assms(2,3) by (rule core_outcome)
  also have "\<dots> = fst (with_context e (arg_xvfb a) ?body ?w2)"
    using assms(1,4) by (simp add: run_command_def d0 Let_def)
  also have "\<dots> = Inl (SystemExit n)"
    using d2 by (rule wc)
  finally show ?thesis .
qed

text \<open>
  Claim C4, as stated, fails: the status handed to \<open>sys.exit\<close> is the failure count, but
  the exit code of the process keeps its low eight bits only. When the test execution
  reports 256 failures, the process exits with code 0.
\<close>

theorem exit_code_counterexample:
  "run_tests (env0\<lparr>run_tests := \<lambda>labels failfast runner ds. (Inr 256, ds)\<rparr>)
       [''app.ModelTest.test_save''] False None [''/tmp/d1'', ''/tmp/d0'']
     = (Inr 256, [''/tmp/d1'', ''/tmp/d0''])
   \<and> fst (core (env0\<lparr>run_tests := \<lambda>labels failfast runner ds. (Inr 256, ds)\<rparr>)
             (args0\<lparr>arg_test := True\<rparr>) ''app'' world0) = Inl (SystemExit 256)
   \<and> exit_code (fst (core (env0\<lparr>run_tests := \<lambda>labels failfast runner ds. (Inr 256, ds)\<rparr>)
             (args0\<lparr>arg_test := True\<rparr>) ''app'' world0)) = 0
   \<and> exit_code (fst (core (env0\<lparr>run_tests := \<lambda>labels failfast runner ds. (Inr 256, ds)\<rparr>)
             (args0\<lparr>arg_test := True\<rparr>) ''app'' world0)) \<noteq> 256"
proof -
  let ?e = "env0\<lparr>run_tests := \<lambda>labels failfast runner ds. (Inr 256, ds)\<rparr>"
  have c: "fst (core ?e (args0\<lparr>arg_test := True\<rparr>) ''app'' world0) = Inl (SystemExit 256)"
    by code_simp
  show ?thesis unfolding c by simp
qed

text \<open>
  Claim C4, amended. In a run of the test operation in which the test execution, given
  the labels chosen, reports \<open>n\<close> failures, \<open>core\<close> ends in \<open>sys.exit(n)\<close> and the exit code
  of the process is \<open>n\<close> modulo 256. When fewer than 256 tests failed, the exit code
  equals the number of failed tests, and it is 0 exactly when zero tests failed.
\<close>

theorem test_exit_code_mod_256:
  assumes "arg_test a"
    and "mkdtemp e (dirs w) = Inr S"
    and "mkdtemp e (S # dirs w) = Inr M"
    and "make_settings e a application S M (M # S # dirs w) = (None, ds)"
    and "arg_xvfb a \<longrightarrow> xvfbwrapper e"
    and "(if arg_test_label a \<noteq> [] then Inr (arg_test_label a)
          else get_test_labels (iter_modules e) (readmodule e) application) = Inr labels"
    and "run_tests e labels (arg_failfast a) (arg_runner a) ds = (Inr n, ds')"
  shows "fst (core e a application w) = Inl (SystemExit n)
         \<and> exit_code (fst (core e a application w)) = n mod 256
         \<and> (0 \<le> n \<and> n < 256 \<longrightarrow>
              exit_code (fst (core e a application w)) = n
              \<and> (exit_code (fst (core e a application w)) = 0 \<longleftrightarrow> n = 0))"
  using core_test_outcome [OF assms] by simp

theorem test_exit_code_mod_256_witness:
  "arg_test (args0\<lparr>arg_test := True\<rparr>)
   \<and> run_tests env0 [''app.ModelTest.test_save''] False None [''/tmp/d1'', ''/tmp/d0'']
       = (Inr 2, [''/tmp/d1/upload.png'', ''/tmp/d1'', ''/tmp/d0''])
   \<and> fst (core env0 (args0\<lparr>arg_test := True\<rparr>) ''app'' world0) = Inl (SystemExit 2)
   \<and> exit_code (fst (core env0 (args0\<lparr>arg_test := True\<rparr>) ''app'' world0)) = 2"
proof -
  let ?a = "args0\<lparr>arg_test := True\<rparr>"
  have h1: "arg_test ?a" by simp
  have h2: "mkdtemp env0 (dirs world0) = Inr ''/tmp/d0''"
    by (simp add: env0_def world0_def digit_char_def)
  have h3: "mkdtemp env0 (''/tmp/d0'' # dirs world0) = Inr ''/tmp/d1''"
    by (simp add: env0_def world0_def digit_char_def)
  have h4: "make_settings env0 ?a ''app'' ''/tmp/d0'' ''/tmp/d1'' (''/tmp/d1'' # ''/tmp/d0'' # dirs world0)
              = (None, [''/tmp/d1'', ''/tmp/d0''])"
    by (simp add: env0_def world0_def)
  have h5: "arg_xvfb ?a \<longrightarrow> xvfbwrapper env0" by (simp add: args0_def)
  have d: "get_test_labels (iter_modules env0) (readmodule env0) ''app''
             = Inr [''app.ModelTest.test_save'']"
    by (simp add: env0_def get_test_labels_def startswith_def test_label_def)
  have h6: "(if arg_test_label ?a \<noteq> [] then Inr (arg_test_label ?a)
          else get_test_labels (iter_modules env0) (readmodule env0) ''app'')
          = Inr [''app.ModelTest.test_save'']"
    using d by (simp add: args0_def)
  have h7: "run_tests env0 [''app.ModelTest.test_save''] (arg_failfast ?a) (arg_runner ?a)
              [''/tmp/d1'', ''/tmp/d0'']
            = (Inr 2, [''/tmp/d1/upload.png'', ''/tmp/d1'', ''/tmp/d0''])"
    by (simp add: env0_def)
  have h7': "run_tests env0 [''app.ModelTest.test_save''] False None [''/tmp/d1'', ''/tmp/d0'']
            = (Inr 2, [''/tmp/d1/upload.png'', ''/tmp/d1'', ''/tmp/d0''])"
    by (simp add: env0_def)
  from test_exit_code_mod_256 [OF h1 h2 h3 h4 h5 h6 h7] h1 h7' show ?thesis by simp
qed

end
